theory Spec2Isabelle
  imports Complex_Main "HOL-Library.Sublist"
begin

section \<open>JavaScript values used by \<open>Str\<close>\<close>

text \<open>
  A JavaScript string is a sequence of UTF-16 code units. A code unit is modelled as a
  natural number (the values above \<open>0xFFFF\<close> never occur in a real string; nothing below
  depends on the bound). \<open>js\<close> turns an Isabelle literal into such a sequence.
\<close>

type_synonym cu = nat
type_synonym jsstring = "cu list"

definition js :: "string \<Rightarrow> jsstring" where
  "js s = map of_char s"

text \<open>
  A JavaScript number is a double: not a number, an infinity, or a finite value. Every
  finite double is a rational, so \<open>Fin\<close> carries a rational. The code only compares
  numbers, floors them and subtracts a string length from a position that is an integer
  no larger than a string length; on those values exact arithmetic and double arithmetic
  agree, except for negative integers below \<open>-2^53\<close>, where both stay negative.
\<close>

datatype jsnum = NaN | PosInf | NegInf | Fin rat

text \<open>
  An exception is a \<open>TypeError\<close> of the runtime or a value thrown by an object's own
  code.
\<close>

datatype error = TypeError | Thrown

text \<open>
  A value is a primitive or an object. An object is described by what the functions of
  \<open>Str\<close> observe of it: the outcome of \<open>String(o)\<close>, which runs the object's own
  conversion and raises when that raises or when there is none (an object without
  prototype), and the outcome of \<open>Object.prototype.toString.call(o)\<close>. An object is taken
  to carry no string method: it is not a \<open>String\<close> wrapper and defines no \<open>replace\<close> or
  \<open>split\<close> of its own.
\<close>

datatype jsval =
    Undefined
  | Null
  | Boolean bool
  | Number jsnum
  | String jsstring
  | Object "error + jsstring" "error + jsstring"

text \<open>
  The Unicode tables of the runtime are not part of the repository. They are taken as a
  parameter: what \<open>toUpperCase\<close>, \<open>toLowerCase\<close> and \<open>normalize('NFD')\<close> return for a
  string that holds a code unit outside ASCII, and how a number is printed.
\<close>

record runtime =
  unicodeUpper :: "jsstring \<Rightarrow> jsstring"
  unicodeLower :: "jsstring \<Rightarrow> jsstring"
  unicodeNFD :: "jsstring \<Rightarrow> jsstring"
  numberToString :: "jsnum \<Rightarrow> jsstring"

text \<open>
  A runtime whose tables leave text as it is. It serves to evaluate the functions on
  ASCII text, where the tables are never consulted.
\<close>

definition plainRuntime :: runtime where
  "plainRuntime =
     \<lparr> unicodeUpper = (\<lambda>s. s), unicodeLower = (\<lambda>s. s), unicodeNFD = (\<lambda>s. s),
       numberToString = (\<lambda>n. []) \<rparr>"

subsection \<open>Characters\<close>

definition space :: cu where "space = 0x20"
definition underscore :: cu where "underscore = 0x5F"
definition dollar :: cu where "dollar = 0x24"
definition ampersand :: cu where "ampersand = 0x26"
definition backtick :: cu where "backtick = 0x60"
definition quote :: cu where "quote = 0x27"

definition isAscii :: "cu \<Rightarrow> bool" where
  "isAscii c = (c < 0x80)"

text \<open>The regular expression class \<open>[A-Z]\<close>.\<close>

definition isUpperAZ :: "cu \<Rightarrow> bool" where
  "isUpperAZ c = (0x41 \<le> c \<and> c \<le> 0x5A)"

definition isLowerAZ :: "cu \<Rightarrow> bool" where
  "isLowerAZ c = (0x61 \<le> c \<and> c \<le> 0x7A)"

text \<open>The regular expression class \<open>\s\<close>: white space and line terminators.\<close>

definition isWhitespace :: "cu \<Rightarrow> bool" where
  "isWhitespace c =
     (c = 0x09 \<or> c = 0x0A \<or> c = 0x0B \<or> c = 0x0C \<or> c = 0x0D \<or> c = 0x20 \<or> c = 0xA0
      \<or> c = 0x1680 \<or> (0x2000 \<le> c \<and> c \<le> 0x200A) \<or> c = 0x2028 \<or> c = 0x2029
      \<or> c = 0x202F \<or> c = 0x205F \<or> c = 0x3000 \<or> c = 0xFEFF)"

text \<open>The characters that \<open>.\<close> does not match.\<close>

definition isLineTerminator :: "cu \<Rightarrow> bool" where
  "isLineTerminator c = (c = 0x0A \<or> c = 0x0D \<or> c = 0x2028 \<or> c = 0x2029)"

definition upperAscii :: "cu \<Rightarrow> cu" where
  "upperAscii c = (if isLowerAZ c then c - 0x20 else c)"

definition lowerAscii :: "cu \<Rightarrow> cu" where
  "lowerAscii c = (if isUpperAZ c then c + 0x20 else c)"

subsection \<open>Built-in string methods\<close>

text \<open>
  \<open>String.prototype.toUpperCase\<close> and \<open>toLowerCase\<close>: on a string of ASCII code units
  they map the letters; any other string is converted by the runtime's tables.
\<close>

definition toUpperCase :: "runtime \<Rightarrow> jsstring \<Rightarrow> jsstring" where
  "toUpperCase rt s = (if list_all isAscii s then map upperAscii s else unicodeUpper rt s)"

definition toLowerCase :: "runtime \<Rightarrow> jsstring \<Rightarrow> jsstring" where
  "toLowerCase rt s = (if list_all isAscii s then map lowerAscii s else unicodeLower rt s)"

text \<open>\<open>normalize('NFD')\<close>: ASCII text is already in normal form.\<close>

definition normalizeNFD :: "runtime \<Rightarrow> jsstring \<Rightarrow> jsstring" where
  "normalizeNFD rt s = (if list_all isAscii s then s else unicodeNFD rt s)"

text \<open>
  \<open>String(v)\<close>: a primitive is printed; an object is converted by its own code, which
  may raise.
\<close>

definition toStr :: "runtime \<Rightarrow> jsval \<Rightarrow> error + jsstring" where
  "toStr rt v =
     (case v of
        Undefined \<Rightarrow> Inr (js ''undefined'')
      | Null \<Rightarrow> Inr (js ''null'')
      | Boolean b \<Rightarrow> Inr (if b then js ''true'' else js ''false'')
      | Number n \<Rightarrow> Inr (numberToString rt n)
      | String s \<Rightarrow> Inr s
      | Object conversion tag \<Rightarrow> conversion)"

text \<open>\<open>Object.prototype.toString.call(v)\<close>.\<close>

definition objectToString :: "jsval \<Rightarrow> error + jsstring" where
  "objectToString v =
     (case v of
        Undefined \<Rightarrow> Inr (js ''[object Undefined]'')
      | Null \<Rightarrow> Inr (js ''[object Null]'')
      | Boolean b \<Rightarrow> Inr (js ''[object Boolean]'')
      | Number n \<Rightarrow> Inr (js ''[object Number]'')
      | String s \<Rightarrow> Inr (js ''[object String]'')
      | Object conversion tag \<Rightarrow> tag)"

text \<open>Evaluation stops at the first exception.\<close>

definition andThen :: "error + 'a \<Rightarrow> ('a \<Rightarrow> error + 'b) \<Rightarrow> error + 'b" where
  "andThen r f = (case r of Inl e \<Rightarrow> Inl e | Inr x \<Rightarrow> f x)"

text \<open>
  \<open>v.m(...)\<close> for a method \<open>m\<close> of strings (\<open>replace\<close>, \<open>split\<close>, \<open>charAt\<close>, \<open>slice\<close>,
  \<open>toLowerCase\<close>, ...): on a string the method runs; \<open>undefined\<close> and \<open>null\<close> have no
  properties, and a boolean, a number or an object has no such method, so the call
  raises a \<open>TypeError\<close>.
\<close>

definition callMethod :: "jsval \<Rightarrow> (jsstring \<Rightarrow> 'a) \<Rightarrow> error + 'a" where
  "callMethod v m = (case v of String s \<Rightarrow> Inr (m s) | _ \<Rightarrow> Inl TypeError)"

text \<open>\<open>str.split(' ')\<close>: the pieces between single spaces; never an empty array.\<close>

fun splitFrom :: "jsstring \<Rightarrow> jsstring \<Rightarrow> jsstring list" where
  "splitFrom cur [] = [cur]"
| "splitFrom cur (c # cs) =
     (if c = space then cur # splitFrom [] cs else splitFrom (cur @ [c]) cs)"

definition split_space :: "jsstring \<Rightarrow> jsstring list" where
  "split_space s = splitFrom [] s"

text \<open>\<open>arr.join(' ')\<close>.\<close>

fun join_space :: "jsstring list \<Rightarrow> jsstring" where
  "join_space [] = []"
| "join_space [w] = w"
| "join_space (w # v # ws) = w @ space # join_space (v # ws)"

text \<open>
  \<open>str.indexOf(sub, from)\<close>: \<open>from\<close> is truncated to an integer and clamped to
  \<open>0..length\<close>; the result is the first index at or after it where \<open>sub\<close> occurs, or
  \<open>-1\<close>.
\<close>

fun clampIndex :: "nat \<Rightarrow> jsnum \<Rightarrow> nat" where
  "clampIndex len NaN = 0"
| "clampIndex len PosInf = len"
| "clampIndex len NegInf = 0"
| "clampIndex len (Fin r) = (if r < 0 then 0 else min (nat \<lfloor>r\<rfloor>) len)"

definition occursAt :: "jsstring \<Rightarrow> jsstring \<Rightarrow> nat \<Rightarrow> bool" where
  "occursAt str sub i = (take (length sub) (drop i str) = sub)"

definition indexOf :: "jsstring \<Rightarrow> jsstring \<Rightarrow> jsnum \<Rightarrow> int" where
  "indexOf str sub from =
     (case find (occursAt str sub)
             [clampIndex (length str) from ..< Suc (length str) - length sub] of
        None \<Rightarrow> - 1
      | Some i \<Rightarrow> int i)"

text \<open>
  The replacement text of \<open>str.replace(/ /g, sep)\<close> for one match: in a replacement
  string \<open>$$\<close> is a dollar sign, \<open>$&\<close> the match, \<open>$`\<close> the text preceding the match and
  \<open>$'\<close> the text following it; the pattern has no group, so every other \<open>$\<close> stands for
  itself.
\<close>

fun getSubstitution :: "jsstring \<Rightarrow> jsstring \<Rightarrow> jsstring \<Rightarrow> jsstring \<Rightarrow> jsstring" where
  "getSubstitution matched preceding following [] = []"
| "getSubstitution matched preceding following [c] = [c]"
| "getSubstitution matched preceding following (c # d # ds) =
     (if c = dollar \<and> d = dollar then dollar # getSubstitution matched preceding following ds
      else if c = dollar \<and> d = ampersand then matched @ getSubstitution matched preceding following ds
      else if c = dollar \<and> d = backtick then preceding @ getSubstitution matched preceding following ds
      else if c = dollar \<and> d = quote then following @ getSubstitution matched preceding following ds
      else c # getSubstitution matched preceding following (d # ds))"

fun replaceSpaces :: "jsstring \<Rightarrow> jsstring \<Rightarrow> jsstring \<Rightarrow> jsstring" where
  "replaceSpaces sep preceding [] = []"
| "replaceSpaces sep preceding (c # cs) =
     (if c = space then getSubstitution [space] preceding cs sep else [c])
     @ replaceSpaces sep (preceding @ [c]) cs"

text \<open>\<open>str.replace(/[U+0300-U+036F]/g, '')\<close>: the combining marks are removed.\<close>

definition isCombiningMark :: "cu \<Rightarrow> bool" where
  "isCombiningMark c = (0x300 \<le> c \<and> c \<le> 0x36F)"

definition stripMarks :: "jsstring \<Rightarrow> jsstring" where
  "stripMarks s = filter (\<lambda>c. \<not> isCombiningMark c) s"

subsection \<open>Numbers\<close>

text \<open>\<open>!n\<close>, \<open>isFinite(n)\<close>, \<open>Math.floor(n)\<close>, \<open>a !== b\<close>, \<open>n > k\<close> and \<open>n - k\<close>.\<close>

fun falsy :: "jsnum \<Rightarrow> bool" where
  "falsy NaN = True"
| "falsy (Fin r) = (r = 0)"
| "falsy n = False"

fun isFinite :: "jsnum \<Rightarrow> bool" where
  "isFinite (Fin r) = True"
| "isFinite n = False"

fun mathFloor :: "jsnum \<Rightarrow> jsnum" where
  "mathFloor (Fin r) = Fin (of_int \<lfloor>r\<rfloor>)"
| "mathFloor n = n"

definition strictEq :: "jsnum \<Rightarrow> jsnum \<Rightarrow> bool" where
  "strictEq a b = (a \<noteq> NaN \<and> b \<noteq> NaN \<and> a = b)"

fun numGreater :: "jsnum \<Rightarrow> nat \<Rightarrow> bool" where
  "numGreater NaN k = False"
| "numGreater PosInf k = True"
| "numGreater NegInf k = False"
| "numGreater (Fin r) k = (of_nat k < r)"

fun numMinus :: "jsnum \<Rightarrow> nat \<Rightarrow> jsnum" where
  "numMinus (Fin r) k = Fin (r - of_nat k)"
| "numMinus n k = n"

definition ofInt :: "int \<Rightarrow> jsnum" where
  "ofInt i = Fin (of_int i)"

text \<open>\<open>a - b\<close> on any two numbers.\<close>

fun numSub :: "jsnum \<Rightarrow> jsnum \<Rightarrow> jsnum" where
  "numSub (Fin a) (Fin b) = Fin (a - b)"
| "numSub NaN b = NaN"
| "numSub a NaN = NaN"
| "numSub PosInf PosInf = NaN"
| "numSub NegInf NegInf = NaN"
| "numSub PosInf b = PosInf"
| "numSub NegInf b = NegInf"
| "numSub (Fin a) PosInf = NegInf"
| "numSub (Fin a) NegInf = PosInf"

section \<open>The functions of \<open>Str\<close> on text\<close>

definition trim :: "jsstring \<Rightarrow> jsstring" where
  "trim str = rev (dropWhile isWhitespace (rev (dropWhile isWhitespace str)))"

definition capitalize :: "runtime \<Rightarrow> jsstring \<Rightarrow> jsstring" where
  "capitalize rt str0 =
     (let str = trim str0
      in toUpperCase rt (take 1 str) @ toLowerCase rt (drop 1 str))"

text \<open>The callback of \<open>reduce\<close> in \<open>camel\<close>, run over the words with their index.\<close>

fun camelReduce :: "runtime \<Rightarrow> jsstring \<Rightarrow> nat \<Rightarrow> jsstring list \<Rightarrow> jsstring" where
  "camelReduce rt acc i [] = acc"
| "camelReduce rt acc i (word # ws) =
     camelReduce rt (acc @ (if i = 0 then word else capitalize rt word)) (Suc i) ws"

definition camel :: "runtime \<Rightarrow> jsstring \<Rightarrow> jsstring" where
  "camel rt string = camelReduce rt [] 0 (split_space (toLowerCase rt (trim string)))"

text \<open>
  \<open>slugify\<close> evaluates the chain as an expression statement and has no \<open>return\<close>: the
  value of the call is \<open>undefined\<close>. \<open>slugifyChain\<close> is the value of the chain.
\<close>

definition slugifyChain :: "runtime \<Rightarrow> jsstring \<Rightarrow> jsstring \<Rightarrow> jsstring" where
  "slugifyChain rt str sep =
     stripMarks (normalizeNFD rt (replaceSpaces sep [] (toLowerCase rt (trim str))))"

definition slugify :: "runtime \<Rightarrow> jsstring \<Rightarrow> jsstring option \<Rightarrow> jsval" where
  "slugify rt str sep =
     (let computed = slugifyChain rt str (case sep of None \<Rightarrow> js ''-'' | Some d \<Rightarrow> d)
      in Undefined)"

definition count :: "jsstring \<Rightarrow> nat" where
  "count str = length str"

text \<open>
  An optional position is \<open>None\<close> when the argument is absent (\<open>undefined\<close>). The
  conversion \<open>String(str)\<close> of the first argument is applied where the functions are
  called on any value, in the next section.
\<close>

definition endsWith :: "jsstring \<Rightarrow> jsstring \<Rightarrow> jsnum option \<Rightarrow> bool" where
  "endsWith str substring pos =
     (let pos1 = (case pos of
                    None \<Rightarrow> ofInt (int (length str))
                  | Some p \<Rightarrow>
                      if falsy p \<or> \<not> isFinite p \<or> \<not> strictEq (mathFloor p) p
                         \<or> numGreater p (length str)
                      then ofInt (int (length str)) else p);
          pos2 = numMinus pos1 (length substring);
          index = indexOf str substring (numMinus pos2 1)
      in index \<noteq> - 1 \<and> strictEq (ofInt index) pos2)"

text \<open>\<open>pos || 0\<close>.\<close>

definition orZero :: "jsnum option \<Rightarrow> jsnum" where
  "orZero pos = (case pos of None \<Rightarrow> Fin 0 | Some p \<Rightarrow> if falsy p then Fin 0 else p)"

definition startsWith :: "jsstring \<Rightarrow> jsstring \<Rightarrow> jsnum option \<Rightarrow> bool" where
  "startsWith str sub pos = strictEq (ofInt (indexOf str sub (orZero pos))) (orZero pos)"

definition lower :: "runtime \<Rightarrow> jsstring \<Rightarrow> jsstring" where
  "lower rt str = toLowerCase rt str"

definition upper :: "runtime \<Rightarrow> jsstring \<Rightarrow> jsstring" where
  "upper rt str = toUpperCase rt str"

text \<open>The \<open>for\<close> loop of \<open>capitalizeAll\<close>, which overwrites the array in place.\<close>

function capitalizeLoop :: "runtime \<Rightarrow> jsstring list \<Rightarrow> nat \<Rightarrow> jsstring list" where
  "capitalizeLoop rt stringArr i =
     (if i < length stringArr
      then capitalizeLoop rt (stringArr[i := capitalize rt (stringArr ! i)]) (Suc i)
      else stringArr)"
  by pat_completeness auto
termination
  by (relation "measure (\<lambda>(rt, stringArr, i). length stringArr - i)") auto

definition capitalizeAll :: "runtime \<Rightarrow> jsstring \<Rightarrow> jsstring" where
  "capitalizeAll rt string = join_space (capitalizeLoop rt (split_space string) 0)"

text \<open>
  \<open>str.replace(/_+(.?)/g, (_, p1) => p1.toUpperCase())\<close>: a run of underscores and the
  character following it, when there is one that \<open>.\<close> matches, become that character in
  upper case.
\<close>

function snakeToCamel :: "runtime \<Rightarrow> jsstring \<Rightarrow> jsstring" where
  "snakeToCamel rt [] = []"
| "snakeToCamel rt (c # cs) =
     (if c = underscore then
        (case dropWhile (\<lambda>x. x = underscore) cs of
           [] \<Rightarrow> toUpperCase rt []
         | d # ds \<Rightarrow>
             if isLineTerminator d then toUpperCase rt [] @ snakeToCamel rt (d # ds)
             else toUpperCase rt [d] @ snakeToCamel rt ds)
      else c # snakeToCamel rt cs)"
  by pat_completeness auto
termination
proof (relation "measure (\<lambda>(rt, s). length s)")
  show "wf (measure (\<lambda>(rt, s). length s))" by simp
next
  fix rt :: runtime and c :: cu and cs x21 x22
  assume "dropWhile (\<lambda>x. x = underscore) cs = x21 # x22"
  then have "length (x21 # x22) \<le> length cs"
    using length_dropWhile_le [of "\<lambda>x. x = underscore" cs] by simp
  then show "((rt, x21 # x22), rt, c # cs) \<in> measure (\<lambda>(rt, s). length s)" by simp
next
  fix rt :: runtime and c :: cu and cs x21 x22
  assume "dropWhile (\<lambda>x. x = underscore) cs = x21 # x22"
  then have "length (x21 # x22) \<le> length cs"
    using length_dropWhile_le [of "\<lambda>x. x = underscore" cs] by simp
  then show "((rt, x22), rt, c # cs) \<in> measure (\<lambda>(rt, s). length s)" by simp
next
  fix rt :: runtime and c :: cu and cs
  show "((rt, cs), rt, c # cs) \<in> measure (\<lambda>(rt, s). length s)" by simp
qed

text \<open>\<open>str.replace(/(^[A-Z])/, (_, p1) => p1.toLowerCase())\<close>.\<close>

definition lowerFirst :: "runtime \<Rightarrow> jsstring \<Rightarrow> jsstring" where
  "lowerFirst rt s =
     (case s of [] \<Rightarrow> [] | c # cs \<Rightarrow> if isUpperAZ c then toLowerCase rt [c] @ cs else c # cs)"

text \<open>
  \<open>str.replace(/([A-Z]+)/g, (_, p1) => `_${p1.toLowerCase()}`)\<close>: every maximal run of
  capital letters becomes an underscore and the run in lower case.
\<close>

function underscoreRuns :: "runtime \<Rightarrow> jsstring \<Rightarrow> jsstring" where
  "underscoreRuns rt [] = []"
| "underscoreRuns rt (c # cs) =
     (if isUpperAZ c
      then underscore # toLowerCase rt (c # takeWhile isUpperAZ cs)
           @ underscoreRuns rt (dropWhile isUpperAZ cs)
      else c # underscoreRuns rt cs)"
  by pat_completeness auto
termination
  by (relation "measure (\<lambda>(rt, s). length s)")
     (auto simp: le_imp_less_Suc length_dropWhile_le)

definition snake :: "runtime \<Rightarrow> jsstring \<Rightarrow> jsstring" where
  "snake rt str = underscoreRuns rt (lowerFirst rt str)"

text \<open>\<open>str.replaceAll('_', ' ')\<close> after \<open>snake\<close>.\<close>

definition words :: "runtime \<Rightarrow> jsstring \<Rightarrow> jsstring" where
  "words rt str = map (\<lambda>c. if c = underscore then space else c) (snake rt str)"

definition title :: "runtime \<Rightarrow> jsstring \<Rightarrow> jsstring" where
  "title rt str = capitalizeAll rt (words rt str)"

section \<open>The functions of \<open>Str\<close> on any value\<close>

text \<open>
  The static methods take whatever value the caller passes as \<open>str\<close>. Each body is
  written out step by step: a method call on a value that is not a string raises, and so
  does \<open>String(v)\<close> on an object whose conversion raises. On a string every function below
  gives the result of the function of the previous section. Every method call and
  property access that a body makes on a parameter is a step that can raise; a parameter
  that a body only hands to a built-in method (the delimiter of \<open>slugify\<close>, the substring
  of \<open>startsWith\<close>, the positions) is taken at its documented type: text, or a number,
  and the optional ones may be absent.
\<close>

definition Str_trim :: "jsval \<Rightarrow> error + jsval" where
  "Str_trim str =
     andThen (callMethod str (\<lambda>s. String (dropWhile isWhitespace s)))
       (\<lambda>a. callMethod a (\<lambda>s. String (rev (dropWhile isWhitespace (rev s)))))"

definition Str_capitalize :: "runtime \<Rightarrow> jsval \<Rightarrow> error + jsval" where
  "Str_capitalize rt str0 =
     andThen (Str_trim str0) (\<lambda>str.
     andThen (callMethod str (\<lambda>s. String (take 1 s))) (\<lambda>first.
     andThen (callMethod first (\<lambda>s. String (toUpperCase rt s))) (\<lambda>up.
     andThen (callMethod str (\<lambda>s. String (drop 1 s))) (\<lambda>rest.
     andThen (callMethod rest (\<lambda>s. String (toLowerCase rt s))) (\<lambda>low.
     andThen (toStr rt up) (\<lambda>x.
     andThen (toStr rt low) (\<lambda>y. Inr (String (x @ y)))))))))"

text \<open>
  \<open>reduce\<close> over the array that \<open>split\<close> returned; \<open>acc + v\<close> appends the text of \<open>v\<close> to
  the string \<open>acc\<close>.
\<close>

fun camelReduceV :: "runtime \<Rightarrow> jsstring \<Rightarrow> nat \<Rightarrow> jsval list \<Rightarrow> error + jsval" where
  "camelReduceV rt acc i [] = Inr (String acc)"
| "camelReduceV rt acc i (word # ws) =
     (case (if i = 0 then Inr word else Str_capitalize rt word) of
        Inl e \<Rightarrow> Inl e
      | Inr w \<Rightarrow>
          (case toStr rt w of
             Inl e \<Rightarrow> Inl e
           | Inr s \<Rightarrow> camelReduceV rt (acc @ s) (Suc i) ws))"

definition Str_camel :: "runtime \<Rightarrow> jsval \<Rightarrow> error + jsval" where
  "Str_camel rt string =
     andThen (Str_trim string) (\<lambda>a.
     andThen (callMethod a (\<lambda>s. String (toLowerCase rt s))) (\<lambda>b.
     andThen (callMethod b (\<lambda>s. map String (split_space s))) (\<lambda>ws.
     camelReduceV rt [] 0 ws)))"

definition Str_slugify :: "runtime \<Rightarrow> jsval \<Rightarrow> jsstring option \<Rightarrow> error + jsval" where
  "Str_slugify rt str sep =
     andThen (Str_trim str) (\<lambda>a.
     andThen (callMethod a (\<lambda>s. String (toLowerCase rt s))) (\<lambda>b.
     andThen (callMethod b (\<lambda>s. String
        (replaceSpaces (case sep of None \<Rightarrow> js ''-'' | Some d \<Rightarrow> d) [] s))) (\<lambda>c.
     andThen (callMethod c (\<lambda>s. String (normalizeNFD rt s))) (\<lambda>d.
     andThen (callMethod d (\<lambda>s. String (stripMarks s))) (\<lambda>computed.
     Inr Undefined)))))"

definition Str_count :: "runtime \<Rightarrow> jsval \<Rightarrow> error + jsval" where
  "Str_count rt str = andThen (toStr rt str) (\<lambda>s. Inr (Number (ofInt (int (count s)))))"

text \<open>
  \<open>substring.length\<close>: \<open>undefined\<close> and \<open>null\<close> have no properties; a string has its
  length; a boolean, a number or an object (taken to carry no \<open>length\<close>) gives
  \<open>undefined\<close>, which the subtraction turns into \<open>NaN\<close>.
\<close>

definition lengthOf :: "jsval \<Rightarrow> error + jsnum" where
  "lengthOf v =
     (case v of
        Undefined \<Rightarrow> Inl TypeError
      | Null \<Rightarrow> Inl TypeError
      | String s \<Rightarrow> Inr (ofInt (int (length s)))
      | _ \<Rightarrow> Inr NaN)"

definition Str_endsWith ::
  "runtime \<Rightarrow> jsval \<Rightarrow> jsval \<Rightarrow> jsnum option \<Rightarrow> error + jsval" where
  "Str_endsWith rt str0 substring pos =
     andThen (toStr rt str0) (\<lambda>str.
       let pos1 = (case pos of
                     None \<Rightarrow> ofInt (int (length str))
                   | Some p \<Rightarrow>
                       if falsy p \<or> \<not> isFinite p \<or> \<not> strictEq (mathFloor p) p
                          \<or> numGreater p (length str)
                       then ofInt (int (length str)) else p)
       in andThen (lengthOf substring) (\<lambda>n.
            let pos2 = numSub pos1 n
            in andThen (toStr rt substring) (\<lambda>search.
                 let index = indexOf str search (numSub pos2 (Fin 1))
                 in Inr (Boolean (index \<noteq> - 1 \<and> strictEq (ofInt index) pos2)))))"

definition Str_startsWith ::
  "runtime \<Rightarrow> jsval \<Rightarrow> jsstring \<Rightarrow> jsnum option \<Rightarrow> error + jsval" where
  "Str_startsWith rt str sub pos =
     andThen (toStr rt str) (\<lambda>s. Inr (Boolean (startsWith s sub pos)))"

definition Str_lower :: "runtime \<Rightarrow> jsval \<Rightarrow> error + jsval" where
  "Str_lower rt str = andThen (toStr rt str) (\<lambda>s. Inr (String (lower rt s)))"

definition Str_upper :: "runtime \<Rightarrow> jsval \<Rightarrow> error + jsval" where
  "Str_upper rt str = andThen (toStr rt str) (\<lambda>s. Inr (String (upper rt s)))"

text \<open>The loop of \<open>capitalizeAll\<close> on an array of values.\<close>

function capitalizeLoopV :: "runtime \<Rightarrow> jsval list \<Rightarrow> nat \<Rightarrow> error + jsval list" where
  "capitalizeLoopV rt stringArr i =
     (if i < length stringArr
      then (case Str_capitalize rt (stringArr ! i) of
              Inl e \<Rightarrow> Inl e
            | Inr w \<Rightarrow> capitalizeLoopV rt (stringArr[i := w]) (Suc i))
      else Inr stringArr)"
  by pat_completeness auto
termination
  by (relation "measure (\<lambda>(rt, stringArr, i). length stringArr - i)") auto

text \<open>
  \<open>arr.join(' ')\<close> on an array of values: \<open>undefined\<close> and \<open>null\<close> give the empty
  string, every other element its text.
\<close>

definition elementText :: "runtime \<Rightarrow> jsval \<Rightarrow> error + jsstring" where
  "elementText rt v = (case v of Undefined \<Rightarrow> Inr [] | Null \<Rightarrow> Inr [] | _ \<Rightarrow> toStr rt v)"

fun joinV :: "runtime \<Rightarrow> jsval list \<Rightarrow> error + jsstring" where
  "joinV rt [] = Inr []"
| "joinV rt [v] = elementText rt v"
| "joinV rt (v # w # ws) =
     (case elementText rt v of
        Inl e \<Rightarrow> Inl e
      | Inr s \<Rightarrow>
          (case joinV rt (w # ws) of
             Inl e \<Rightarrow> Inl e
           | Inr r \<Rightarrow> Inr (s @ space # r)))"

definition Str_capitalizeAll :: "runtime \<Rightarrow> jsval \<Rightarrow> error + jsval" where
  "Str_capitalizeAll rt string =
     andThen (callMethod string (\<lambda>s. map String (split_space s))) (\<lambda>stringArr.
     andThen (capitalizeLoopV rt stringArr 0) (\<lambda>arr.
     andThen (joinV rt arr) (\<lambda>s. Inr (String s))))"

definition Str_snakeToCamel :: "runtime \<Rightarrow> jsval \<Rightarrow> error + jsval" where
  "Str_snakeToCamel rt str = callMethod str (\<lambda>s. String (snakeToCamel rt s))"

definition Str_snake :: "runtime \<Rightarrow> jsval \<Rightarrow> error + jsval" where
  "Str_snake rt str =
     andThen (callMethod str (\<lambda>s. String (lowerFirst rt s)))
       (\<lambda>a. callMethod a (\<lambda>s. String (underscoreRuns rt s)))"

definition Str_detectObject :: "jsval \<Rightarrow> error + jsval" where
  "Str_detectObject obj =
     andThen (objectToString obj) (\<lambda>t.
       if t = js ''[object Object]'' then Inr (Boolean True) else Inr (Boolean False))"

definition Str_words :: "runtime \<Rightarrow> jsval \<Rightarrow> error + jsval" where
  "Str_words rt str =
     andThen (Str_snake rt str)
       (\<lambda>a. callMethod a (\<lambda>s. String (map (\<lambda>c. if c = underscore then space else c) s)))"

definition Str_title :: "runtime \<Rightarrow> jsval \<Rightarrow> error + jsval" where
  "Str_title rt str = andThen (Str_words rt str) (\<lambda>w. Str_capitalizeAll rt w)"

text \<open>A call of one of the functions, and its outcome.\<close>

datatype call =
    Trim jsval
  | Capitalize jsval
  | Camel jsval
  | Slugify jsval "jsstring option"
  | Count jsval
  | EndsWith jsval jsval "jsnum option"
  | StartsWith jsval jsstring "jsnum option"
  | Lower jsval
  | Upper jsval
  | CapitalizeAll jsval
  | SnakeToCamel jsval
  | Snake jsval
  | DetectObject jsval
  | Words jsval
  | Title jsval

fun run :: "runtime \<Rightarrow> call \<Rightarrow> error + jsval" where
  "run rt (Trim v) = Str_trim v"
| "run rt (Capitalize v) = Str_capitalize rt v"
| "run rt (Camel v) = Str_camel rt v"
| "run rt (Slugify v sep) = Str_slugify rt v sep"
| "run rt (Count v) = Str_count rt v"
| "run rt (EndsWith v substring pos) = Str_endsWith rt v substring pos"
| "run rt (StartsWith v sub pos) = Str_startsWith rt v sub pos"
| "run rt (Lower v) = Str_lower rt v"
| "run rt (Upper v) = Str_upper rt v"
| "run rt (CapitalizeAll v) = Str_capitalizeAll rt v"
| "run rt (SnakeToCamel v) = Str_snakeToCamel rt v"
| "run rt (Snake v) = Str_snake rt v"
| "run rt (DetectObject v) = Str_detectObject v"
| "run rt (Words v) = Str_words rt v"
| "run rt (Title v) = Str_title rt v"

text \<open>The first argument of a call.\<close>

fun subject :: "call \<Rightarrow> jsval" where
  "subject (Trim v) = v"
| "subject (Capitalize v) = v"
| "subject (Camel v) = v"
| "subject (Slugify v sep) = v"
| "subject (Count v) = v"
| "subject (EndsWith v substring pos) = v"
| "subject (StartsWith v sub pos) = v"
| "subject (Lower v) = v"
| "subject (Upper v) = v"
| "subject (CapitalizeAll v) = v"
| "subject (SnakeToCamel v) = v"
| "subject (Snake v) = v"
| "subject (DetectObject v) = v"
| "subject (Words v) = v"
| "subject (Title v) = v"

fun isString :: "jsval \<Rightarrow> bool" where
  "isString (String s) = True"
| "isString v = False"

fun isPrimitive :: "jsval \<Rightarrow> bool" where
  "isPrimitive (Object conversion tag) = False"
| "isPrimitive v = True"

text \<open>The calls whose body calls a string method on \<open>str\<close> itself.\<close>

fun callsMethod :: "call \<Rightarrow> bool" where
  "callsMethod (Count v) = False"
| "callsMethod (EndsWith v substring pos) = False"
| "callsMethod (StartsWith v sub pos) = False"
| "callsMethod (Lower v) = False"
| "callsMethod (Upper v) = False"
| "callsMethod (DetectObject v) = False"
| "callsMethod c = True"

text \<open>A value that \<open>String\<close> converts to text, one that \<open>Object.prototype.toString\<close> accepts.\<close>

definition convertible :: "runtime \<Rightarrow> jsval \<Rightarrow> bool" where
  "convertible rt v = (case toStr rt v of Inl e \<Rightarrow> False | Inr s \<Rightarrow> True)"

definition classifiable :: "jsval \<Rightarrow> bool" where
  "classifiable v = (case objectToString v of Inl e \<Rightarrow> False | Inr t \<Rightarrow> True)"

text \<open>
  The arguments on which the functions are meant to work: text for the functions that
  call a string method on \<open>str\<close>, a value that \<open>String\<close> converts for the five functions
  that apply \<open>String(str)\<close> (with a text substring for \<open>endsWith\<close>), and a value that
  \<open>Object.prototype.toString\<close> accepts for \<open>detectObject\<close>.
\<close>

fun inDomain :: "runtime \<Rightarrow> call \<Rightarrow> bool" where
  "inDomain rt (Count v) = convertible rt v"
| "inDomain rt (EndsWith v substring pos) = (convertible rt v \<and> isString substring)"
| "inDomain rt (StartsWith v sub pos) = convertible rt v"
| "inDomain rt (Lower v) = convertible rt v"
| "inDomain rt (Upper v) = convertible rt v"
| "inDomain rt (DetectObject v) = classifiable v"
| "inDomain rt c = isString (subject c)"

section \<open>Vocabulary of the specification\<close>

text \<open>
  \<open>capitalize\<close> in the words of the specification: trim, then upper-case the first
  character and lower-case the remainder.
\<close>

definition capitalizeSpec :: "runtime \<Rightarrow> jsstring \<Rightarrow> jsstring" where
  "capitalizeSpec rt w =
     toUpperCase rt (take 1 (trim w)) @ toLowerCase rt (drop 1 (trim w))"

text \<open>
  \<open>camel\<close> in the words of the specification: trim, lower-case the whole string, split
  on single spaces, and concatenate the words, the first one unchanged and every later
  one capitalized.
\<close>

definition camelSpec :: "runtime \<Rightarrow> jsstring \<Rightarrow> jsstring" where
  "camelSpec rt s =
     (case split_space (toLowerCase rt (trim s)) of
        [] \<Rightarrow> []
      | first # others \<Rightarrow> first @ concat (map (capitalizeSpec rt) others))"

text \<open>
  A simple camelCase identifier: the first character is not a capital letter, there is
  no underscore and no space, and no capital letter follows another one.
\<close>

fun noUpperPair :: "jsstring \<Rightarrow> bool" where
  "noUpperPair (c # d # ds) = ((isUpperAZ c \<longrightarrow> \<not> isUpperAZ d) \<and> noUpperPair (d # ds))"
| "noUpperPair s = True"

definition simpleCamelCase :: "jsstring \<Rightarrow> bool" where
  "simpleCamelCase s =
     ((case s of [] \<Rightarrow> True | c # cs \<Rightarrow> \<not> isUpperAZ c)
      \<and> underscore \<notin> set s \<and> space \<notin> set s \<and> noUpperPair s)"

text \<open>
  A position that is not finite, not an integer, or greater than the length of the text.
\<close>

definition fallbackPosition :: "nat \<Rightarrow> jsnum \<Rightarrow> bool" where
  "fallbackPosition len p =
     (case p of Fin r \<Rightarrow> of_int \<lfloor>r\<rfloor> \<noteq> r \<or> of_nat len < r | _ \<Rightarrow> True)"

section \<open>Evaluation\<close>

lemma js_Nil: "js [] = []"
  by (simp add: js_def)

lemma js_Cons: "js (c # cs) = of_char c # js cs"
  by (simp add: js_def)

lemmas chars = isUpperAZ_def isLowerAZ_def isAscii_def lowerAscii_def upperAscii_def
  underscore_def space_def isWhitespace_def isLineTerminator_def

section \<open>\<open>slugify\<close>\<close>

text \<open>
  C1. \<open>slugify\<close> does not return a value: for every input string and every delimiter
  the result of the call is \<open>undefined\<close>, also when it is made with a text argument
  through the class; the chain does compute the slug (\<open>this-is-a-test\<close> for the
  documented example), which is then dropped.
\<close>

theorem slugify_returns_undefined:
  "slugify rt str sep = Undefined
   \<and> run rt (Slugify (String str) sep) = Inr Undefined
   \<and> slugifyChain rt (js '' This is a tesT '') (js ''-'') = js ''this-is-a-test''"
proof (intro conjI)
  show "slugify rt str sep = Undefined"
    by (simp add: slugify_def)
  show "run rt (Slugify (String str) sep) = Inr Undefined"
    by (simp add: Str_slugify_def Str_trim_def andThen_def callMethod_def)
  show "slugifyChain rt (js '' This is a tesT '') (js ''-'') = js ''this-is-a-test''"
    by (simp add: js_Nil js_Cons slugifyChain_def trim_def toLowerCase_def normalizeNFD_def
        stripMarks_def isCombiningMark_def dollar_def chars)
qed

section \<open>\<open>endsWith\<close> and \<open>startsWith\<close>\<close>

lemma indexOf_ge: "- 1 \<le> indexOf str sub from"
  by (simp add: indexOf_def split: option.splits)

lemma indexOf_occurs:
  "indexOf str sub from = int i \<Longrightarrow> occursAt str sub i \<and> i + length sub \<le> length str"
  by (auto simp: indexOf_def find_Some_iff split: option.splits)

text \<open>When \<open>endsWith\<close> without a position answers true, the text does end with the substring.\<close>

lemma endsWith_sound:
  assumes "endsWith t u None"
  shows "suffix u t"
proof -
  let ?i = "indexOf t u (Fin (of_int (int (length t)) - of_nat (length u) - 1))"
  from assms have nonneg: "?i \<noteq> - 1"
    and "(of_int ?i :: rat) = of_nat (length t) - of_nat (length u)"
    by (auto simp: endsWith_def ofInt_def strictEq_def Let_def)
  then have "(of_int ?i :: rat) = of_int (int (length t) - int (length u))"
    by simp
  then have idx: "?i = int (length t) - int (length u)"
    by (simp only: of_int_eq_iff)
  from nonneg idx indexOf_ge [of t u "Fin (of_int (int (length t)) - of_nat (length u) - 1)"]
  have le: "length u \<le> length t" by linarith
  then have "indexOf t u (Fin (of_int (int (length t)) - of_nat (length u) - 1))
      = int (length t - length u)"
    using idx by simp
  then have "occursAt t u (length t - length u)"
    by (rule indexOf_occurs [THEN conjunct1])
  then have "drop (length t - length u) t = u"
    using le by (simp add: occursAt_def)
  then show ?thesis
    by (metis suffix_drop)
qed

text \<open>
  C2. \<open>endsWith(t, u)\<close> without a position should answer true exactly when \<open>t\<close> ends with
  \<open>u\<close>. The search starts one place before the expected index, so an occurrence there is
  found first: \<open>'aa'\<close> ends with \<open>'a'\<close>, and \<open>endsWith('aa', 'a')\<close> is false.
\<close>

theorem endsWith_misses_suffix:
  "suffix (js ''a'') (js ''aa'') \<and> endsWith (js ''aa'') (js ''a'') None = False"
  by (simp add: js_Nil js_Cons suffix_def endsWith_def indexOf_def occursAt_def ofInt_def
      strictEq_def)

text \<open>At this input the answer of \<open>endsWith\<close> and the suffix relation differ.\<close>

theorem endsWith_misses_suffix_witness:
  "endsWith (js ''aa'') (js ''a'') None \<noteq> suffix (js ''a'') (js ''aa'')"
  using endsWith_misses_suffix by simp

text \<open>A negative integer position is kept as it is, and the answer is then false.\<close>

lemma endsWith_negative:
  "r < 0 \<Longrightarrow> of_int \<lfloor>r\<rfloor> = r \<Longrightarrow> endsWith t u (Some (Fin r)) = False"
proof -
  assume neg: "r < 0" and integral: "of_int \<lfloor>r\<rfloor> = r"
  let ?i = "indexOf t u (numMinus (numMinus (Fin r) (length u)) 1)"
  have "- 1 \<le> ?i" by (rule indexOf_ge)
  moreover have "r - of_nat (length u) < 0" using neg by simp
  ultimately have "?i = - 1 \<or> of_int ?i \<noteq> r - of_nat (length u)"
    by (smt (verit) of_int_less_0_iff)
  with neg integral show ?thesis
    by (auto simp: endsWith_def ofInt_def strictEq_def)
qed

text \<open>
  C5, as stated: every position that is not finite, not an integer or out of range,
  negative integers included, gives the result of \<open>endsWith(t, u)\<close>. It fails at the
  position \<open>-1\<close>: \<open>endsWith('test', 'st', -1)\<close> is false and \<open>endsWith('test', 'st')\<close> is
  true.
\<close>

theorem endsWith_negative_counterexample:
  "endsWith (js ''test'') (js ''st'') (Some (Fin (- 1)))
   \<noteq> endsWith (js ''test'') (js ''st'') None"
  by (simp add: js_Nil js_Cons endsWith_def indexOf_def occursAt_def ofInt_def strictEq_def)

text \<open>
  C5, amended: for every text \<open>t\<close>, substring \<open>u\<close> and position \<open>p\<close> that is not finite,
  not an integer, or greater than the length of \<open>t\<close>, \<open>endsWith(t, u, p)\<close> returns the
  result of \<open>endsWith(t, u)\<close>.
\<close>

theorem endsWith_fallback:
  "fallbackPosition (length t) p \<Longrightarrow> endsWith t u (Some p) = endsWith t u None"
  by (cases p) (auto simp: fallbackPosition_def endsWith_def strictEq_def)

text \<open>The position 5 is out of range for \<open>'test'\<close>.\<close>

theorem endsWith_fallback_witness:
  "fallbackPosition (length (js ''test'')) (Fin 5)
   \<and> endsWith (js ''test'') (js ''st'') (Some (Fin 5)) = endsWith (js ''test'') (js ''st'') None"
  using endsWith_fallback [of "js ''test''" "Fin 5" "js ''st''"]
  by (simp add: js_Nil js_Cons fallbackPosition_def)

text \<open>
  C10. \<open>startsWith(t, u, p)\<close> with a strictly negative \<open>p\<close> should answer false. When
  \<open>u\<close> does not occur, \<open>indexOf\<close> returns \<open>-1\<close>, which equals the position \<open>-1\<close>:
  \<open>startsWith('test', 'x', -1)\<close> is true.
\<close>

theorem startsWith_negative_true:
  "startsWith (js ''test'') (js ''x'') (Some (Fin (- 1))) = True"
  by (simp add: js_Nil js_Cons startsWith_def orZero_def indexOf_def occursAt_def ofInt_def
      strictEq_def)

text \<open>For every other negative position the answer is false.\<close>

lemma startsWith_negative_other:
  "r < 0 \<Longrightarrow> r \<noteq> - 1 \<Longrightarrow> startsWith t u (Some (Fin r)) = False"
proof -
  assume neg: "r < 0" and other: "r \<noteq> - 1"
  let ?i = "indexOf t u (Fin r)"
  have "- 1 \<le> ?i" by (rule indexOf_ge)
  then have "?i = - 1 \<or> 0 \<le> ?i" by linarith
  then have "(of_int ?i :: rat) \<noteq> r"
    using neg other by auto
  with neg show ?thesis
    by (simp add: startsWith_def orZero_def ofInt_def strictEq_def)
qed

section \<open>\<open>snake\<close>, \<open>snakeToCamel\<close> and \<open>words\<close>\<close>

text \<open>
  C3, as stated: \<open>snake('helloWorld') == 'hello_world'\<close> and \<open>snake('ID') == 'id'\<close>. The
  second equation fails: the first capital is lowered, and the capital after it gets its
  underscore.
\<close>

theorem snake_ID_counterexample:
  "snake plainRuntime (js ''ID'') \<noteq> js ''id''"
  by (simp add: js_Nil js_Cons snake_def lowerFirst_def toLowerCase_def chars)

text \<open>
  C3, amended: \<open>snake('helloWorld') == 'hello_world'\<close> and \<open>snake('ID') == 'i_d'\<close>.
\<close>

theorem snake_examples:
  "snake rt (js ''helloWorld'') = js ''hello_world'' \<and> snake rt (js ''ID'') = js ''i_d''"
  by (simp add: js_Nil js_Cons snake_def lowerFirst_def toLowerCase_def chars)

lemma toLowerCase_upper_letter:
  "isUpperAZ c \<Longrightarrow> toLowerCase rt [c] = [c + 0x20]"
  by (simp add: toLowerCase_def chars)

lemma toUpperCase_lowered_letter:
  "isUpperAZ c \<Longrightarrow> toUpperCase rt [c + 0x20] = [c]"
  by (simp add: toUpperCase_def chars)

lemma lowered_letter_plain:
  "isUpperAZ c \<Longrightarrow> c + 0x20 \<noteq> underscore \<and> \<not> isLineTerminator (c + 0x20)"
  by (simp add: chars)

lemma noUpperPair_tail: "noUpperPair (c # cs) \<Longrightarrow> noUpperPair cs"
  by (cases cs) auto

lemma noUpperPair_after_upper:
  "noUpperPair (c # cs) \<Longrightarrow> isUpperAZ c \<Longrightarrow>
   takeWhile isUpperAZ cs = [] \<and> dropWhile isUpperAZ cs = cs"
  by (cases cs) auto

text \<open>
  Without underscores in the input and without adjacent capitals, \<open>snakeToCamel\<close> undoes
  the second replacement of \<open>snake\<close>: each capital became an underscore and its small
  letter, which becomes the capital again.
\<close>

lemma underscoreRuns_inverse:
  "underscore \<notin> set s \<Longrightarrow> noUpperPair s \<Longrightarrow> snakeToCamel rt (underscoreRuns rt s) = s"
proof (induction s)
  case Nil
  show ?case by simp
next
  case (Cons c cs)
  have tail: "snakeToCamel rt (underscoreRuns rt cs) = cs"
    using Cons by (simp add: noUpperPair_tail)
  show ?case
  proof (cases "isUpperAZ c")
    case True
    have "underscoreRuns rt (c # cs) = underscore # (c + 0x20) # underscoreRuns rt cs"
      using True noUpperPair_after_upper [OF Cons.prems(2) True]
      by (simp add: toLowerCase_upper_letter)
    then show ?thesis
      using True tail lowered_letter_plain [OF True]
      by (simp add: toUpperCase_lowered_letter)
  next
    case False
    then show ?thesis using Cons.prems(1) tail by simp
  qed
qed

text \<open>
  C7. Round trip: for every simple camelCase identifier \<open>s\<close> (first character lower
  case, no underscore, no space, no two consecutive capital letters),
  \<open>snakeToCamel(snake(s)) == s\<close>. The theorem asks of the first character only that it
  is not a capital letter, which every lower-case character satisfies.
\<close>

theorem snake_roundtrip:
  "simpleCamelCase s \<Longrightarrow> snakeToCamel rt (snake rt s) = s"
proof -
  assume simple: "simpleCamelCase s"
  then have "lowerFirst rt s = s"
    by (cases s) (simp_all add: simpleCamelCase_def lowerFirst_def)
  with simple show ?thesis
    by (simp add: snake_def simpleCamelCase_def underscoreRuns_inverse)
qed

text \<open>\<open>helloWorld\<close> is a simple camelCase identifier and survives the round trip.\<close>

theorem snake_roundtrip_witness:
  "simpleCamelCase (js ''helloWorld'')
   \<and> snakeToCamel plainRuntime (snake plainRuntime (js ''helloWorld'')) = js ''helloWorld''"
  using snake_roundtrip [of "js ''helloWorld''" plainRuntime]
  by (simp add: js_Nil js_Cons simpleCamelCase_def chars)

text \<open>
  C9. For every input string \<open>s\<close>, the output of \<open>words(s)\<close> contains no underscore:
  the final replacement turns every underscore into a space, those of the input as well
  as those that \<open>snake\<close> inserted.
\<close>

theorem words_no_underscore:
  "underscore \<notin> set (words rt s)"
  by (auto simp: words_def chars)

section \<open>\<open>capitalizeAll\<close> and \<open>camel\<close>\<close>

declare capitalizeLoop.simps [simp del]

text \<open>The loop, started at index \<open>i\<close>, capitalizes the elements from \<open>i\<close> on.\<close>

lemma capitalizeLoop_from:
  "i \<le> length arr \<Longrightarrow>
   capitalizeLoop rt arr i = take i arr @ map (capitalize rt) (drop i arr)"
proof (induction rt arr i rule: capitalizeLoop.induct)
  case (1 rt arr i)
  show ?case
  proof (cases "i < length arr")
    case True
    let ?arr = "arr[i := capitalize rt (arr ! i)]"
    have "capitalizeLoop rt arr i = capitalizeLoop rt ?arr (Suc i)"
      using True by (simp add: capitalizeLoop.simps [of rt arr i])
    also have "\<dots> = take (Suc i) ?arr @ map (capitalize rt) (drop (Suc i) ?arr)"
      using True "1.IH" by simp
    also have "\<dots> = take i arr @ capitalize rt (arr ! i) # map (capitalize rt) (drop (Suc i) arr)"
      using True by (simp add: take_Suc_conv_app_nth)
    also have "\<dots> = take i arr @ map (capitalize rt) (drop i arr)"
      using True by (simp add: Cons_nth_drop_Suc [symmetric])
    finally show ?thesis .
  next
    case False
    have "capitalizeLoop rt arr i = arr"
      using False by (subst capitalizeLoop.simps) simp
    with False "1.prems" show ?thesis by simp
  qed
qed

lemma capitalizeAll_map:
  "capitalizeAll rt s = join_space (map (capitalize rt) (split_space s))"
  by (simp add: capitalizeAll_def capitalizeLoop_from)

lemma splitFrom_not_Nil: "splitFrom cur s \<noteq> []"
  by (induction s arbitrary: cur) auto

lemma splitFrom_space:
  "splitFrom cur (a @ space # b) = splitFrom cur a @ splitFrom [] b"
  by (induction a arbitrary: cur) auto

lemma join_space_append:
  "xs \<noteq> [] \<Longrightarrow> ys \<noteq> [] \<Longrightarrow> join_space (xs @ ys) = join_space xs @ space # join_space ys"
proof (induction xs rule: join_space.induct)
  case 1
  then show ?case by simp
next
  case (2 w)
  then show ?case by (cases ys) auto
next
  case (3 w v ws)
  then show ?case by simp
qed

lemma capitalize_Nil: "capitalize rt [] = []"
  by (simp add: capitalize_def trim_def toUpperCase_def toLowerCase_def)

lemma capitalizeAll_Nil: "capitalizeAll rt [] = []"
  by (simp add: capitalizeAll_map split_space_def capitalize_Nil)

text \<open>A space of the input separates two parts that are capitalized on their own.\<close>

lemma capitalizeAll_space:
  "capitalizeAll rt (a @ space # b) = capitalizeAll rt a @ space # capitalizeAll rt b"
  by (simp add: capitalizeAll_map split_space_def splitFrom_space join_space_append
      splitFrom_not_Nil)

text \<open>
  C4, as stated: a run of two or more consecutive spaces of the input is rendered as a
  single space. It fails at \<open>'a  b'\<close>, whose two spaces are both in the output \<open>'A  B'\<close>:
  the empty word between them is capitalized to the empty word and joined on both sides.
\<close>

theorem capitalizeAll_collapse_counterexample:
  "capitalizeAll plainRuntime (js ''a  b'') = js ''A  B''
   \<and> capitalizeAll plainRuntime (js ''a  b'') \<noteq> js ''A B''"
  by (simp add: js_Nil js_Cons capitalizeAll_map split_space_def capitalize_def trim_def
      toUpperCase_def toLowerCase_def chars)

text \<open>
  C4, amended: \<open>capitalizeAll\<close> keeps every run of spaces at its length. An input made
  of a text \<open>a\<close>, a run of one or more spaces and a text \<open>b\<close> gives the result for \<open>a\<close>,
  the same run of spaces and the result for \<open>b\<close>.
\<close>

theorem capitalizeAll_keeps_runs:
  "capitalizeAll rt (a @ replicate (Suc k) space @ b)
   = capitalizeAll rt a @ replicate (Suc k) space @ capitalizeAll rt b"
proof (induction k arbitrary: a)
  case 0
  show ?case by (simp add: capitalizeAll_space)
next
  case (Suc k)
  have "capitalizeAll rt (a @ replicate (Suc (Suc k)) space @ b)
        = capitalizeAll rt a @ space # capitalizeAll rt ([] @ replicate (Suc k) space @ b)"
    using capitalizeAll_space [of rt a "replicate (Suc k) space @ b"] by simp
  also have "\<dots> = capitalizeAll rt a @ space
                    # (capitalizeAll rt [] @ replicate (Suc k) space @ capitalizeAll rt b)"
    by (simp only: Suc.IH)
  finally show ?case by (simp add: capitalizeAll_Nil)
qed

lemma capitalize_spec: "capitalize rt = capitalizeSpec rt"
  by (rule ext) (simp add: capitalize_def capitalizeSpec_def Let_def)

lemma camelReduce_later:
  "camelReduce rt acc (Suc i) ws = acc @ concat (map (capitalize rt) ws)"
  by (induction ws arbitrary: acc i) auto

text \<open>
  C6. \<open>camel\<close> trims its input, lower-cases the entire string, splits on single spaces
  and concatenates the words, the first word unchanged and every subsequent word
  capitalized (by \<open>capitalize\<close>: trimmed, first character upper case, rest lower case);
  in particular \<open>camel(' This is a tesT ') == 'thisIsATest'\<close>.
\<close>

theorem camel_refines_spec:
  "camel rt s = camelSpec rt s
   \<and> camel rt (js '' This is a tesT '') = js ''thisIsATest''"
proof
  show "camel rt s = camelSpec rt s"
    by (cases "split_space (toLowerCase rt (trim s))")
       (simp_all add: camel_def camelSpec_def camelReduce_later capitalize_spec)
  show "camel rt (js '' This is a tesT '') = js ''thisIsATest''"
    by (simp add: js_Nil js_Cons camel_def trim_def split_space_def capitalize_def
        toLowerCase_def toUpperCase_def chars)
qed

section \<open>Errors\<close>

lemma andThen_Inr: "andThen (Inr x) f = f x"
  by (simp add: andThen_def)

lemma andThen_Inl: "andThen (Inl e) f = Inl e"
  by (simp add: andThen_def)

lemma callMethod_String: "callMethod (String s) m = Inr (m s)"
  by (simp add: callMethod_def)

lemma toStr_String: "toStr rt (String s) = Inr s"
  by (simp add: toStr_def)

lemmas steps = andThen_Inr andThen_Inl callMethod_String toStr_String

subsection \<open>On text, every body runs to its end\<close>

text \<open>
  Each function, called on a string, returns the value of the function on text: every
  receiver of a method call in its body is a string again.
\<close>

lemma Str_trim_text: "Str_trim (String s) = Inr (String (trim s))"
  by (simp add: Str_trim_def trim_def steps)

lemma Str_capitalize_text: "Str_capitalize rt (String s) = Inr (String (capitalize rt s))"
  by (simp add: Str_capitalize_def capitalize_def Let_def Str_trim_text steps)

lemma camelReduceV_text:
  "camelReduceV rt acc i (map String ws) = Inr (String (camelReduce rt acc i ws))"
  by (induction ws arbitrary: acc i) (simp_all add: Str_capitalize_text steps)

lemma Str_camel_text: "Str_camel rt (String s) = Inr (String (camel rt s))"
  by (simp add: Str_camel_def camel_def Str_trim_text camelReduceV_text steps)

lemma Str_slugify_text: "Str_slugify rt (String s) sep = Inr (slugify rt s sep)"
  by (simp add: Str_slugify_def slugify_def Str_trim_text steps)

declare capitalizeLoopV.simps [simp del]

lemma capitalizeLoopV_text:
  "capitalizeLoopV rt (map String ws) i = Inr (map String (capitalizeLoop rt ws i))"
proof (induction rt ws i rule: capitalizeLoop.induct)
  case (1 rt ws i)
  show ?case
  proof (cases "i < length ws")
    case True
    have "capitalizeLoopV rt (map String ws) i
          = capitalizeLoopV rt (map String (ws[i := capitalize rt (ws ! i)])) (Suc i)"
      using True
      by (subst capitalizeLoopV.simps) (simp add: Str_capitalize_text map_update)
    also have "\<dots> = Inr (map String (capitalizeLoop rt (ws[i := capitalize rt (ws ! i)]) (Suc i)))"
      using True by (rule "1.IH")
    also have "capitalizeLoop rt (ws[i := capitalize rt (ws ! i)]) (Suc i) = capitalizeLoop rt ws i"
      using True by (subst (2) capitalizeLoop.simps) simp
    finally show ?thesis .
  next
    case False
    then show ?thesis
      by (subst capitalizeLoopV.simps, subst capitalizeLoop.simps) simp
  qed
qed

lemma joinV_text: "joinV rt (map String ws) = Inr (join_space ws)"
  by (induction ws rule: join_space.induct) (simp_all add: elementText_def toStr_String)

lemma Str_capitalizeAll_text:
  "Str_capitalizeAll rt (String s) = Inr (String (capitalizeAll rt s))"
  by (simp add: Str_capitalizeAll_def capitalizeAll_def capitalizeLoopV_text joinV_text steps)

lemma Str_snakeToCamel_text:
  "Str_snakeToCamel rt (String s) = Inr (String (snakeToCamel rt s))"
  by (simp add: Str_snakeToCamel_def steps)

lemma Str_snake_text: "Str_snake rt (String s) = Inr (String (snake rt s))"
  by (simp add: Str_snake_def snake_def steps)

lemma Str_words_text: "Str_words rt (String s) = Inr (String (words rt s))"
  by (simp add: Str_words_def words_def Str_snake_text steps)

lemma Str_title_text: "Str_title rt (String s) = Inr (String (title rt s))"
  by (simp add: Str_title_def title_def Str_words_text Str_capitalizeAll_text steps)

text \<open>
  \<open>endsWith\<close> on a first argument that \<open>String\<close> converts and a text substring: the
  position stays finite, so the subtractions are those of the function on text.
\<close>

lemma Str_endsWith_text:
  "toStr rt v = Inr s \<Longrightarrow>
   Str_endsWith rt v (String u) pos = Inr (Boolean (endsWith s u pos))"
proof -
  assume conv: "toStr rt v = Inr s"
  define pos1 where "pos1 =
    (case pos of
       None \<Rightarrow> ofInt (int (length s))
     | Some p \<Rightarrow>
         if falsy p \<or> \<not> isFinite p \<or> \<not> strictEq (mathFloor p) p
            \<or> numGreater p (length s)
         then ofInt (int (length s)) else p)"
  have fin: "isFinite pos1"
    by (cases pos) (auto simp: pos1_def ofInt_def)
  then obtain r where r: "pos1 = Fin r"
    by (cases pos1) simp_all
  have "Str_endsWith rt v (String u) pos
        = Inr (Boolean (let pos2 = numSub pos1 (ofInt (int (length u)));
                            index = indexOf s u (numSub pos2 (Fin 1))
                        in index \<noteq> - 1 \<and> strictEq (ofInt index) pos2))"
    by (simp add: Str_endsWith_def conv lengthOf_def toStr_String andThen_def pos1_def Let_def)
  also have "\<dots> = Inr (Boolean (endsWith s u pos))"
    by (simp add: endsWith_def Let_def pos1_def [symmetric] r ofInt_def)
  finally show ?thesis .
qed

lemmas on_text = Str_trim_text Str_capitalize_text Str_camel_text Str_slugify_text
  Str_capitalizeAll_text Str_snakeToCamel_text Str_snake_text Str_words_text Str_title_text

lemma convertible_result: "convertible rt v \<Longrightarrow> \<exists>s. toStr rt v = Inr s"
  by (cases "toStr rt v") (simp_all add: convertible_def)

lemma classifiable_result: "classifiable v \<Longrightarrow> \<exists>t. objectToString v = Inr t"
  by (cases "objectToString v") (simp_all add: classifiable_def)

text \<open>Every primitive value is converted by \<open>String\<close> and accepted by \<open>Object.prototype.toString\<close>.\<close>

lemma primitive_convertible: "isPrimitive v \<Longrightarrow> convertible rt v \<and> classifiable v"
  by (cases v) (simp_all add: convertible_def classifiable_def toStr_def objectToString_def)

subsection \<open>Totality\<close>

text \<open>
  C8, as stated: no operation raises an error for a text or text-coercible argument.
  It fails for \<open>trim(123)\<close>: \<open>String\<close> converts the number, but \<open>trim\<close> does not apply
  \<open>String\<close>; the number has no \<open>replace\<close> method, and the call raises a \<open>TypeError\<close>.
\<close>

theorem trim_number_counterexample:
  "convertible plainRuntime (Number (Fin 123))
   \<and> run plainRuntime (Trim (Number (Fin 123))) = Inl TypeError"
  by (simp add: convertible_def toStr_def Str_trim_def callMethod_def andThen_def)

text \<open>
  C8, amended: no operation raises an error when \<open>str\<close> is text and the other arguments
  have their documented types (a text substring or delimiter, a position that is a number
  or absent). \<open>count\<close>, \<open>endsWith\<close>, \<open>startsWith\<close>, \<open>lower\<close> and \<open>upper\<close>, which apply
  \<open>String(str)\<close>, raise no error either for any other \<open>str\<close> that \<open>String\<close> converts
  without raising, and \<open>detectObject\<close> raises none for a value that
  \<open>Object.prototype.toString\<close> accepts.
\<close>

theorem run_total_in_domain:
  "inDomain rt c \<Longrightarrow> \<exists>v. run rt c = Inr v"
proof (cases c)
  case (Count v)
  assume "inDomain rt c"
  with Count obtain s where "toStr rt v = Inr s"
    using convertible_result by auto
  with Count show ?thesis by (simp add: Str_count_def steps)
next
  case (EndsWith v u p)
  assume "inDomain rt c"
  with EndsWith have "convertible rt v" and is_text: "isString u"
    by simp_all
  then obtain s where "toStr rt v = Inr s"
    using convertible_result by blast
  moreover obtain t where "u = String t"
    using is_text by (cases u) simp_all
  ultimately show ?thesis
    using EndsWith by (simp add: Str_endsWith_text)
next
  case (StartsWith v u p)
  assume "inDomain rt c"
  with StartsWith obtain s where "toStr rt v = Inr s"
    using convertible_result by auto
  with StartsWith show ?thesis by (simp add: Str_startsWith_def steps)
next
  case (Lower v)
  assume "inDomain rt c"
  with Lower obtain s where "toStr rt v = Inr s"
    using convertible_result by auto
  with Lower show ?thesis by (simp add: Str_lower_def steps)
next
  case (Upper v)
  assume "inDomain rt c"
  with Upper obtain s where "toStr rt v = Inr s"
    using convertible_result by auto
  with Upper show ?thesis by (simp add: Str_upper_def steps)
next
  case (DetectObject v)
  assume "inDomain rt c"
  with DetectObject obtain t where "objectToString v = Inr t"
    using classifiable_result by auto
  with DetectObject show ?thesis by (simp add: Str_detectObject_def steps)
qed (cases "subject c"; simp add: on_text)+

text \<open>\<open>title('hello_world')\<close> is a call on text, and it returns a value.\<close>

theorem run_total_in_domain_witness:
  "inDomain plainRuntime (Title (String (js ''hello_world'')))
   \<and> (\<exists>v. run plainRuntime (Title (String (js ''hello_world''))) = Inr v)"
  using run_total_in_domain [of plainRuntime "Title (String (js ''hello_world''))"]
  by simp

subsection \<open>Outside the domain\<close>

text \<open>
  A function that calls a string method on \<open>str\<close> raises a \<open>TypeError\<close> for every
  primitive \<open>str\<close> that is not text.
\<close>

lemma run_raises_on_other_primitive:
  "callsMethod c \<Longrightarrow> \<not> isString (subject c) \<Longrightarrow> isPrimitive (subject c) \<Longrightarrow>
   run rt c = Inl TypeError"
  by (cases c; cases "subject c")
     (simp_all add: Str_trim_def Str_capitalize_def Str_camel_def Str_slugify_def
        Str_capitalizeAll_def Str_snakeToCamel_def Str_snake_def Str_words_def Str_title_def
        callMethod_def andThen_def)

text \<open>\<open>count\<close> raises what \<open>String\<close> raises on an object that it cannot convert.\<close>

lemma count_raises_on_unconvertible:
  "run rt (Count (Object (Inl e) tag)) = Inl e"
  by (simp add: Str_count_def toStr_def andThen_def)

text \<open>\<open>endsWith\<close> raises a \<open>TypeError\<close> for an \<open>undefined\<close> substring.\<close>

lemma endsWith_undefined_substring:
  "toStr rt v = Inr s \<Longrightarrow> run rt (EndsWith v Undefined pos) = Inl TypeError"
  by (simp add: Str_endsWith_def lengthOf_def andThen_def Let_def)

end
